theory Spec2Isabelle
  imports Complex_Main "HOL-Library.Multiset"
begin

section \<open>Arrays\<close>

text \<open>
  The notebook computes with numpy arrays of floating-point numbers. They are modelled in
  exact arithmetic: a number is a \<open>real\<close>, a one-dimensional array is the list of its
  entries, a two-dimensional array (an \<open>ndarray\<close> or an \<open>np.matrix\<close>) is the list of its
  rows. An array without rows is the empty list, so its number of columns is not recorded;
  the theorems about shapes below are about arrays with at least one row. Rounding is not
  modelled: where the notebook's results agree up to rounding, the model's are equal.
  Every exception numpy raises
  is a value of \<open>error\<close>: an index out of range, operand shapes that do not fit
  (\<open>ValueError\<close>), and the singular-matrix error of \<open>np.linalg.inv\<close> (\<open>LinAlgError\<close>).
\<close>

type_synonym vec = "real list"

type_synonym matrix = "real list list"

datatype error = IndexError | ValueError | LinAlgError

definition nrows :: "matrix \<Rightarrow> nat" where
  "nrows A = length A"

definition ncols :: "matrix \<Rightarrow> nat" where
  "ncols A = (case A of [] \<Rightarrow> 0 | r # _ \<Rightarrow> length r)"

definition rect :: "nat \<Rightarrow> nat \<Rightarrow> matrix \<Rightarrow> bool" where
  \<comment> \<open>\<open>A.shape == (n, k)\<close>\<close>
  "rect n k A \<longleftrightarrow> length A = n \<and> list_all (\<lambda>r. length r = k) A"

definition zeros :: "nat \<Rightarrow> nat \<Rightarrow> matrix" where
  \<comment> \<open>\<open>np.zeros((r, c))\<close>\<close>
  "zeros r c = replicate r (replicate c 0)"

definition mtranspose :: "matrix \<Rightarrow> matrix" where
  \<comment> \<open>\<open>A.T\<close>\<close>
  "mtranspose A = map (\<lambda>j. map (\<lambda>r. r ! j) A) [0..<ncols A]"

definition dot :: "vec \<Rightarrow> vec \<Rightarrow> real" where
  "dot u v = sum_list (map2 (*) u v)"

definition matmul :: "matrix \<Rightarrow> matrix \<Rightarrow> error + matrix" where
  \<comment> \<open>\<open>A @ B\<close> on two-dimensional operands (and \<open>A * B\<close> on \<open>np.matrix\<close> operands):
      the inner dimensions must agree.\<close>
  "matmul A B =
     (if ncols A = nrows B then Inr (map (\<lambda>r. map (dot r) (mtranspose B)) A)
      else Inl ValueError)"

definition matvec :: "matrix \<Rightarrow> vec \<Rightarrow> error + vec" where
  \<comment> \<open>\<open>A @ v\<close> with a one-dimensional \<open>v\<close>\<close>
  "matvec A v = (if ncols A = length v then Inr (map (\<lambda>r. dot r v) A) else Inl ValueError)"

definition smul :: "real \<Rightarrow> matrix \<Rightarrow> matrix" where
  \<comment> \<open>scalar \<open>c * A\<close>\<close>
  "smul c A = map (map ((*) c)) A"

definition iadd :: "matrix \<Rightarrow> matrix \<Rightarrow> error + matrix" where
  \<comment> \<open>\<open>A += B\<close>: \<open>B\<close> is broadcast to the shape of \<open>A\<close>, each of its dimensions being that
      of \<open>A\<close> or 1.\<close>
  "iadd A B =
     (if (nrows B = nrows A \<or> nrows B = 1) \<and> (ncols B = ncols A \<or> ncols B = 1)
      then Inr (map (\<lambda>i. map (\<lambda>j. A ! i ! j
                  + B ! (if nrows B = 1 then 0 else i) ! (if ncols B = 1 then 0 else j))
                  [0..<ncols A]) [0..<nrows A])
      else Inl ValueError)"

definition fill_diagonal :: "matrix \<Rightarrow> vec \<Rightarrow> matrix" where
  \<comment> \<open>\<open>np.fill_diagonal(A, val)\<close> with an array \<open>val\<close>: the values are written along the
      diagonal, repeated from the start when they run out, the surplus ones unused; an
      empty \<open>val\<close> writes nothing.\<close>
  "fill_diagonal A val =
     (if val = [] then A
      else map (\<lambda>i. map (\<lambda>j. if i = j then val ! (i mod length val) else A ! i ! j)
                  [0..<ncols A]) [0..<nrows A])"

definition diags :: "vec \<Rightarrow> matrix" where
  \<comment> \<open>\<open>scipy.sparse.diags(d, format='csr')\<close>: the square matrix of order \<open>len(d)\<close> with
      \<open>d\<close> on its diagonal. Only its entries are modelled, not the sparse storage.\<close>
  "diags d = map (\<lambda>i. map (\<lambda>j. if i = j then d ! i else 0) [0..<length d]) [0..<length d]"

definition reshape_col :: "vec \<Rightarrow> matrix" where
  \<comment> \<open>\<open>v.reshape((-1, 1))\<close>\<close>
  "reshape_col v = map (\<lambda>a. [a]) v"

definition square :: "vec \<Rightarrow> vec" where
  \<comment> \<open>\<open>v**2\<close>, entry by entry\<close>
  "square v = map (\<lambda>a. a ^ 2) v"

subsection \<open>The inverse\<close>

text \<open>
  \<open>np.linalg.inv\<close> belongs to numpy, not to the notebook, and it works in floating point:
  it raises its singular-matrix error when the factorisation it computes in doubles meets a
  pivot that is exactly zero. A matrix whose exact determinant is zero need not make it
  raise, and one whose exact determinant is not zero may. That is not modelled. The
  inverse is a parameter \<open>linalg_inv\<close> of every function below that calls it, some
  function from a matrix to an error or a matrix, and the theorems hold for every such
  function.
\<close>

type_synonym inverse = "matrix \<Rightarrow> error + matrix"

section \<open>The benchmark cell\<close>

text \<open>
  One pass of the innermost loop of option 1,
  \<open>for i in range(n): XXe2 += e_hat[i]**2 * np.matrix(X[i,]).T @ np.matrix(X[i,])\<close>.
  The operators \<open>*\<close> and \<open>@\<close> bind equally and associate to the left, so the scalar
  multiplies the column first. Reading \<open>e_hat[i]\<close> or \<open>X[i,]\<close> past the end raises
  \<open>IndexError\<close>.
\<close>

fun opt1_loop :: "nat list \<Rightarrow> matrix \<Rightarrow> vec \<Rightarrow> matrix \<Rightarrow> error + matrix" where
  "opt1_loop [] X e_hat XXe2 = Inr XXe2"
| "opt1_loop (i # is) X e_hat XXe2 =
     (if length e_hat \<le> i then Inl IndexError
      else if length X \<le> i then Inl IndexError
      else case matmul (smul (e_hat ! i ^ 2) (mtranspose [X ! i])) [X ! i] of
             Inl err \<Rightarrow> Inl err
           | Inr P \<Rightarrow> (case iadd XXe2 P of
                         Inl err \<Rightarrow> Inl err
                       | Inr XXe2' \<Rightarrow> opt1_loop is X e_hat XXe2'))"

text \<open>
  The \<open>if opt == 1: ... elif opt == 4: ...\<close> chain of one replication: from the value of
  \<open>XXe2\<close> on entry, the design matrix and the residuals, the value of \<open>XXe2\<close> on exit.
  \<open>n\<close> is the notebook's global sample size.
\<close>

definition middle_step :: "nat \<Rightarrow> nat \<Rightarrow> matrix \<Rightarrow> matrix \<Rightarrow> vec \<Rightarrow> error + matrix" where
  "middle_step opt n XXe2 X e_hat =
     (if opt = 1 then opt1_loop [0..<n] X e_hat XXe2
      else if opt = 2 then
        (let e_hat2_M = fill_diagonal (zeros n n) (square e_hat) in
         case matmul (mtranspose X) e_hat2_M of
           Inl err \<Rightarrow> Inl err
         | Inr XtD \<Rightarrow> matmul XtD X)
      else if opt = 3 then
        (let e_hat2_M = diags (square e_hat) in
         case matmul (mtranspose X) e_hat2_M of
           Inl err \<Rightarrow> Inl err
         | Inr XtD \<Rightarrow> matmul XtD X)
      else if opt = 4 then
        (let e_hat' = reshape_col e_hat in
         case matmul (mtranspose X) e_hat' of
           Inl err \<Rightarrow> Inl err
         | Inr Xe \<Rightarrow> matmul Xe (mtranspose Xe))
      else Inr XXe2)"

text \<open>
  The rest of the replication: \<open>XX_inv = np.linalg.inv(X.T @ X)\<close> and
  \<open>sig_B = XX_inv @ XXe2 @ XX_inv\<close>. The result is the pair of \<open>XXe2\<close> and \<open>sig_B\<close>.
\<close>

definition sandwich_step ::
  "inverse \<Rightarrow> nat \<Rightarrow> nat \<Rightarrow> matrix \<Rightarrow> matrix \<Rightarrow> vec \<Rightarrow> error + (matrix \<times> matrix)" where
  "sandwich_step linalg_inv opt n XXe2 X e_hat =
     (case middle_step opt n XXe2 X e_hat of
        Inl err \<Rightarrow> Inl err
      | Inr XXe2' \<Rightarrow>
         (case matmul (mtranspose X) X of
            Inl err \<Rightarrow> Inl err
          | Inr XtX \<Rightarrow>
             (case linalg_inv XtX of
                Inl err \<Rightarrow> Inl err
              | Inr XX_inv \<Rightarrow>
                 (case matmul XX_inv XXe2' of
                    Inl err \<Rightarrow> Inl err
                  | Inr L \<Rightarrow>
                     (case matmul L XX_inv of
                        Inl err \<Rightarrow> Inl err
                      | Inr sig_B \<Rightarrow> Inr (XXe2', sig_B))))))"

text \<open>
  The estimator of the specification, on one pair of design matrix and residuals: the
  chain entered with the freshly initialised \<open>XXe2 = np.zeros((2, 2))\<close>, and with \<open>n\<close> the
  number of rows of \<open>X\<close>.
\<close>

definition computeMiddle :: "nat \<Rightarrow> matrix \<Rightarrow> vec \<Rightarrow> error + matrix" where
  "computeMiddle opt X e_hat = middle_step opt (length X) (zeros 2 2) X e_hat"


definition valid_input :: "nat \<Rightarrow> matrix \<Rightarrow> vec \<Rightarrow> bool" where
  \<comment> \<open>\<open>X\<close> has \<open>n \<ge> K\<close> rows and \<open>K \<ge> 1\<close> columns, and there are \<open>n\<close> residuals.\<close>
  "valid_input K X e_hat \<longleftrightarrow>
     0 < K \<and> K \<le> length X \<and> rect (length X) K X \<and> length e_hat = length X"

section \<open>The data generator\<close>

text \<open>
  numpy's random generator is outside the notebook. It is a parameter of the model: a
  state \<open>'g\<close>, a function \<open>seed\<close> from the argument of \<open>np.random.seed\<close> to the state it
  sets, and a function \<open>draw\<close> that returns one sample and the next state.
  \<open>np.random.normal(size=n)\<close> takes \<open>n\<close> samples in turn.
\<close>

primrec normal :: "('g \<Rightarrow> real \<times> 'g) \<Rightarrow> nat \<Rightarrow> 'g \<Rightarrow> vec \<times> 'g" where
  "normal draw 0 g = ([], g)"
| "normal draw (Suc n) g =
     (case draw g of (a, g1) \<Rightarrow> (case normal draw n g1 of (as, g2) \<Rightarrow> (a # as, g2)))"

text \<open>
  \<open>lpm(n)\<close>: the result is the pair \<open>(X, e_hat)\<close>, with the generator state it leaves
  behind. \<open>Y\<close> is an array of booleans, read as 0 and 1 in the arithmetic that follows.
\<close>

definition lpm ::
  "inverse \<Rightarrow> ('g \<Rightarrow> real \<times> 'g) \<Rightarrow> nat \<Rightarrow> 'g \<Rightarrow> error + ((matrix \<times> vec) \<times> 'g)" where
  "lpm linalg_inv draw n g =
     (let b0 = [- 1, 1] in
      case normal draw n g of (e, g1) \<Rightarrow>
      case normal draw n g1 of (x, g2) \<Rightarrow>
      let X = map (\<lambda>a. [1, a]) x in
      case matvec X b0 of Inl err \<Rightarrow> Inl err | Inr Xb0 \<Rightarrow>
      let Y = map (\<lambda>v. if 0 \<le> v then 1 else 0) (map2 (+) Xb0 e) in
      case matmul (mtranspose X) X of Inl err \<Rightarrow> Inl err | Inr XtX \<Rightarrow>
      case linalg_inv XtX of Inl err \<Rightarrow> Inl err | Inr XtX_inv \<Rightarrow>
      case matmul XtX_inv (mtranspose X) of Inl err \<Rightarrow> Inl err | Inr P \<Rightarrow>
      case matvec P Y of Inl err \<Rightarrow> Inl err | Inr bhat \<Rightarrow>
      if length bhat \<le> 1 then Inl IndexError
      else let bhat2 = bhat ! 1 in
      case matvec X bhat of Inl err \<Rightarrow> Inl err | Inr Xbhat \<Rightarrow>
      let e_hat = map2 (-) Y Xbhat in
      Inr ((X, e_hat), g2))"

section \<open>The replication loop\<close>

text \<open>
  The first lines of a replication, \<open>np.random.seed(iter); data = lpm(n); X = data[0];
  e_hat = data[1]\<close>. The generator state \<open>g\<close> that the replication finds is overwritten by
  the seeding.
\<close>

definition rep_data ::
  "inverse \<Rightarrow> (nat \<Rightarrow> 'g) \<Rightarrow> ('g \<Rightarrow> real \<times> 'g) \<Rightarrow> nat \<Rightarrow> nat \<Rightarrow> 'g
     \<Rightarrow> error + ((matrix \<times> vec) \<times> 'g)" where
  "rep_data linalg_inv seed draw n iter g = (let g = seed iter in lpm linalg_inv draw n g)"

text \<open>
  One replication, from the generator state and the value of \<open>XXe2\<close> it finds: the data
  it drew, the values of \<open>XXe2\<close> and \<open>sig_B\<close> at its end, and the generator state.
\<close>

definition replication ::
  "inverse \<Rightarrow> (nat \<Rightarrow> 'g) \<Rightarrow> ('g \<Rightarrow> real \<times> 'g) \<Rightarrow> nat \<Rightarrow> nat \<Rightarrow> nat \<Rightarrow> 'g \<times> matrix
     \<Rightarrow> error + ((matrix \<times> vec) \<times> matrix \<times> matrix \<times> 'g)" where
  "replication linalg_inv seed draw opt n iter s =
     (case rep_data linalg_inv seed draw n iter (fst s) of
        Inl err \<Rightarrow> Inl err
      | Inr ((X, e_hat), g') \<Rightarrow>
         (case sandwich_step linalg_inv opt n (snd s) X e_hat of
            Inl err \<Rightarrow> Inl err
          | Inr (XXe2', sig_B) \<Rightarrow> Inr ((X, e_hat), XXe2', sig_B, g')))"

text \<open>
  \<open>for iter in range(Rep)\<close>: the state carried from one replication to the next is the
  generator state and \<open>XXe2\<close>. The result lists, replication by replication, the data
  drawn and the values of \<open>XXe2\<close> and \<open>sig_B\<close>.
\<close>

fun rep_loop ::
  "inverse \<Rightarrow> (nat \<Rightarrow> 'g) \<Rightarrow> ('g \<Rightarrow> real \<times> 'g) \<Rightarrow> nat \<Rightarrow> nat \<Rightarrow> nat list \<Rightarrow> 'g \<times> matrix
     \<Rightarrow> error + (((matrix \<times> vec) \<times> matrix \<times> matrix) list \<times> ('g \<times> matrix))" where
  "rep_loop linalg_inv seed draw opt n [] s = Inr ([], s)"
| "rep_loop linalg_inv seed draw opt n (iter # iters) s =
     (case replication linalg_inv seed draw opt n iter s of
        Inl err \<Rightarrow> Inl err
      | Inr (d, XXe2', sig_B, g') \<Rightarrow>
         (case rep_loop linalg_inv seed draw opt n iters (g', XXe2') of
            Inl err \<Rightarrow> Inl err
          | Inr (tr, s') \<Rightarrow> Inr ((d, XXe2', sig_B) # tr, s')))"

text \<open>
  The body of \<open>for opt in range(1, 5)\<close> for one option: \<open>XXe2 = np.zeros((2, 2))\<close>, then
  the replications.
\<close>

definition benchmark_opt ::
  "inverse \<Rightarrow> (nat \<Rightarrow> 'g) \<Rightarrow> ('g \<Rightarrow> real \<times> 'g) \<Rightarrow> nat \<Rightarrow> nat \<Rightarrow> nat \<Rightarrow> 'g
     \<Rightarrow> error + (((matrix \<times> vec) \<times> matrix \<times> matrix) list \<times> ('g \<times> matrix))" where
  "benchmark_opt linalg_inv seed draw n Rep opt g =
     rep_loop linalg_inv seed draw opt n [0..<Rep] (g, zeros 2 2)"

section \<open>The real-data cell\<close>

text \<open>
  The second cell that computes the middle term, on the data set read from disk, with
  options 1, 3 and 4 only. \<open>n\<close> and \<open>K\<close> are the globals \<open>d0.shape[0]\<close> and \<open>X.shape[1]\<close>.
  Its option 1 reads
  \<open>for i in range(n): XXe2 += e_hat[i]**2 * np.outer(X[i, :], X[i, :])\<close>.
\<close>

definition outer :: "vec \<Rightarrow> vec \<Rightarrow> matrix" where
  \<comment> \<open>\<open>np.outer(u, v)\<close>\<close>
  "outer u v = map (\<lambda>a. map (\<lambda>b. a * b) v) u"

fun outer_loop :: "nat list \<Rightarrow> matrix \<Rightarrow> vec \<Rightarrow> matrix \<Rightarrow> error + matrix" where
  "outer_loop [] X e_hat XXe2 = Inr XXe2"
| "outer_loop (i # is) X e_hat XXe2 =
     (if length e_hat \<le> i then Inl IndexError
      else if length X \<le> i then Inl IndexError
      else case iadd XXe2 (smul (e_hat ! i ^ 2) (outer (X ! i) (X ! i))) of
             Inl err \<Rightarrow> Inl err
           | Inr XXe2' \<Rightarrow> outer_loop is X e_hat XXe2')"

definition mul_column :: "matrix \<Rightarrow> vec \<Rightarrow> error + matrix" where
  \<comment> \<open>\<open>X * v[:, np.newaxis]\<close>, the entrywise product of an array of shape \<open>(n, K)\<close> and one
      of shape \<open>(m, 1)\<close>: the second is broadcast along the columns, and along the rows
      when one of \<open>n\<close> and \<open>m\<close> is 1.\<close>
  "mul_column X v =
     (if length v = nrows X then Inr (map2 (\<lambda>x a. map (\<lambda>b. b * a) x) X v)
      else if length v = 1 then Inr (map (map (\<lambda>b. b * v ! 0)) X)
      else if nrows X = 1 then Inr (map (\<lambda>a. map (\<lambda>b. b * a) (X ! 0)) v)
      else Inl ValueError)"

definition realdata_middle :: "nat \<Rightarrow> nat \<Rightarrow> nat \<Rightarrow> matrix \<Rightarrow> vec \<Rightarrow> error + matrix" where
  "realdata_middle opt n K X e_hat =
     (let XXe2 = zeros K K in
      if opt = 1 then outer_loop [0..<n] X e_hat XXe2
      else if opt = 3 then
        (let e_hat2_M = diags (square e_hat) in
         case matmul (mtranspose X) e_hat2_M of
           Inl err \<Rightarrow> Inl err
         | Inr XtD \<Rightarrow> matmul XtD X)
      else if opt = 4 then
        (case mul_column X e_hat of
           Inl err \<Rightarrow> Inl err
         | Inr Xe \<Rightarrow> matmul (mtranspose Xe) Xe)
      else Inr XXe2)"

section \<open>The quantity of the specification\<close>

text \<open>
  The specification's middle term, written after its words: the sum over the
  observations of \<open>residual_i^2 * outer(x_i, x_i)\<close>, and that sum times \<open>1/n\<close>.
\<close>

definition madd :: "matrix \<Rightarrow> matrix \<Rightarrow> matrix" where
  "madd A B = map2 (map2 (+)) A B"

definition sum_outer :: "nat \<Rightarrow> matrix \<Rightarrow> vec \<Rightarrow> matrix" where
  "sum_outer K X r =
     foldr (\<lambda>(x, ri) S. madd (smul (ri ^ 2) (outer x x)) S) (zip X r) (zeros K K)"

definition SandwichMiddle :: "nat \<Rightarrow> matrix \<Rightarrow> vec \<Rightarrow> matrix" where
  "SandwichMiddle K X r = smul (1 / real (length X)) (sum_outer K X r)"

section \<open>Test data\<close>

text \<open>
  A generator for concrete runs: the state is a counter, a sample is the counter modulo 3,
  and seeding with \<open>i\<close> sets the counter to \<open>i\<close>.
\<close>

definition toy_seed :: "nat \<Rightarrow> nat" where
  "toy_seed i = i"

definition toy_draw :: "nat \<Rightarrow> real \<times> nat" where
  "toy_draw g = (real (g mod 3), Suc g)"

text \<open>
  An inverse for concrete runs: the inverse in exact arithmetic, by cofactors, with
  \<open>LinAlgError\<close> for a matrix that is not square or whose determinant is zero. It stands
  in for \<open>np.linalg.inv\<close> in the runs on test data only, never in a general theorem.
\<close>

definition minor_m :: "matrix \<Rightarrow> nat \<Rightarrow> nat \<Rightarrow> matrix" where
  "minor_m A i j = map (\<lambda>r. take j r @ drop (Suc j) r) (take i A @ drop (Suc i) A)"

primrec det_n :: "nat \<Rightarrow> matrix \<Rightarrow> real" where
  "det_n 0 A = 1"
| "det_n (Suc k) A =
     (\<Sum>j\<leftarrow>[0..<Suc k]. (- 1) ^ j * (A ! 0 ! j) * det_n k (minor_m A 0 j))"

definition det :: "matrix \<Rightarrow> real" where
  "det A = det_n (length A) A"

definition exact_inv :: inverse where
  "exact_inv A =
     (let k = length A in
      if \<not> list_all (\<lambda>r. length r = k) A then Inl LinAlgError
      else if det A = 0 then Inl LinAlgError
      else Inr (map (\<lambda>i. map (\<lambda>j. (- 1) ^ (i + j) * det (minor_m A j i) / det A)
                  [0..<k]) [0..<k]))"

section \<open>Closed forms\<close>

text \<open>
  Auxiliary notions for the proofs: the matrix with a given entry function, the weighted
  cross product \<open>X' diag(w) X\<close> entry by entry, and the entries of \<open>X' e\<close>.
\<close>

definition mk :: "nat \<Rightarrow> nat \<Rightarrow> (nat \<Rightarrow> nat \<Rightarrow> real) \<Rightarrow> matrix" where
  "mk r c f = map (\<lambda>i. map (\<lambda>j. f i j) [0..<c]) [0..<r]"

definition wcross :: "nat \<Rightarrow> matrix \<Rightarrow> vec \<Rightarrow> matrix" where
  "wcross K X w = mk K K (\<lambda>j l. \<Sum>(x, r)\<leftarrow>zip X w. r * (x ! j * x ! l))"

definition xvec :: "matrix \<Rightarrow> vec \<Rightarrow> nat \<Rightarrow> real" where
  "xvec X e j = (\<Sum>(x, r)\<leftarrow>zip X e. x ! j * r)"

section \<open>Matrices by their entries\<close>

text \<open>
  Every rectangular matrix is \<open>mk\<close> of its entries, and each array operation of the
  notebook maps entry functions to entry functions. The sums are over index lists.
\<close>

lemma mk_nth: "i < r \<Longrightarrow> j < c \<Longrightarrow> mk r c f ! i ! j = f i j"
  by (simp add: mk_def)

lemma mk_row: "i < r \<Longrightarrow> mk r c f ! i = map (f i) [0..<c]"
  by (simp add: mk_def)

lemma length_mk: "length (mk r c f) = r"
  by (simp add: mk_def)

lemma nrows_mk: "nrows (mk r c f) = r"
  by (simp add: mk_def nrows_def)

lemma ncols_mk: "0 < r \<Longrightarrow> ncols (mk r c f) = c"
  by (cases r) (simp_all add: mk_def ncols_def upt_conv_Cons del: upt_Suc)


lemma mk_cong: "(\<And>i j. i < r \<Longrightarrow> j < c \<Longrightarrow> f i j = g i j) \<Longrightarrow> mk r c f = mk r c g"
  by (simp add: mk_def)

lemma rect_eq_mk:
  assumes "rect r c A"
  shows "A = mk r c (\<lambda>i j. A ! i ! j)"
proof (rule nth_equalityI)
  show "length A = length (mk r c (\<lambda>i j. A ! i ! j))"
    using assms by (simp add: rect_def length_mk)
next
  fix i assume "i < length A"
  then have i: "i < r" and len: "length (A ! i) = c"
    using assms by (simp_all add: rect_def list_all_length)
  have "map (\<lambda>j. A ! i ! j) [0..<length (A ! i)] = A ! i"
    by (rule map_nth)
  then show "A ! i = mk r c (\<lambda>i j. A ! i ! j) ! i"
    using i len by (simp add: mk_row)
qed

lemma rect_ncols: "rect r c A \<Longrightarrow> 0 < r \<Longrightarrow> ncols A = c"
  by (cases A) (auto simp: rect_def ncols_def)

lemma mtranspose_mk: "0 < r \<Longrightarrow> mtranspose (mk r c f) = mk c r (\<lambda>j i. f i j)"
  by (simp add: mtranspose_def ncols_mk) (simp add: mk_def)

lemma dot_map: "dot (map f [0..<m]) (map g [0..<m]) = (\<Sum>k\<leftarrow>[0..<m]. f k * g k)"
  by (simp add: dot_def zip_map_map zip_same_conv_map o_def) 

lemma matmul_mk:
  assumes "0 < r" "0 < m"
  shows "matmul (mk r m f) (mk m c g) = Inr (mk r c (\<lambda>i j. \<Sum>k\<leftarrow>[0..<m]. f i k * g k j))"
proof -
  have T: "mtranspose (mk m c g) = mk c m (\<lambda>j k. g k j)"
    using assms by (simp add: mtranspose_mk)
  have "map (\<lambda>ro. map (dot ro) (mk c m (\<lambda>j k. g k j))) (mk r m f)
        = mk r c (\<lambda>i j. \<Sum>k\<leftarrow>[0..<m]. f i k * g k j)"
    by (simp add: mk_def o_def dot_map)
  then show ?thesis
    using assms by (simp add: matmul_def ncols_mk nrows_mk T)
qed

lemma matmul_mk_bad:
  assumes "0 < r" "m \<noteq> m'"
  shows "matmul (mk r m f) (mk m' c g) = Inl ValueError"
  using assms by (simp add: matmul_def ncols_mk nrows_mk)

lemma zeros_mk: "zeros r c = mk r c (\<lambda>i j. 0)"
  by (simp add: zeros_def mk_def map_replicate_const)

lemma diags_mk: "diags d = mk (length d) (length d) (\<lambda>i j. if i = j then d ! i else 0)"
  by (simp add: diags_def mk_def)

lemma fill_diagonal_zeros:
  "val \<noteq> [] \<Longrightarrow> 0 < n \<Longrightarrow> fill_diagonal (zeros n n) val
     = mk n n (\<lambda>i j. if i = j then val ! (i mod length val) else 0)"
  by (simp add: fill_diagonal_def zeros_mk ncols_mk nrows_mk) (simp add: mk_def)

lemma reshape_col_mk: "reshape_col v = mk (length v) 1 (\<lambda>i j. v ! i)"
proof -
  have "map (\<lambda>a. [a]) (map (\<lambda>i. v ! i) [0..<length v]) = mk (length v) 1 (\<lambda>i j. v ! i)"
    by (simp add: mk_def)
  then show ?thesis
    by (simp only: map_nth reshape_col_def)
qed

lemma smul_mk: "smul a (mk r c f) = mk r c (\<lambda>i j. a * f i j)"
  by (simp add: smul_def mk_def)

lemma row_mk: "[x] = mk 1 (length x) (\<lambda>i j. x ! j)"
  by (simp add: mk_def map_nth)

lemma iadd_mk:
  assumes "0 < r"
  shows "iadd (mk r c f) (mk r c g) = Inr (mk r c (\<lambda>i j. f i j + g i j))"
proof -
  have "mk r c (\<lambda>i j. mk r c f ! i ! j
          + mk r c g ! (if r = 1 then 0 else i) ! (if c = 1 then 0 else j))
        = mk r c (\<lambda>i j. f i j + g i j)"
    by (rule mk_cong) (auto simp: mk_nth)
  then show ?thesis
    using assms by (simp add: iadd_def ncols_mk nrows_mk) (simp add: mk_def)
qed

lemma sum_list_index_zip:
  assumes "length X = n" "length e = n"
  shows "(\<Sum>i\<leftarrow>[0..<n]. g (X ! i) (e ! i)) = (\<Sum>(x, r)\<leftarrow>zip X e. g x r)"
proof -
  have "map (\<lambda>i. g (X ! i) (e ! i)) [0..<n] = map (\<lambda>i. (\<lambda>(x, r). g x r) (zip X e ! i)) [0..<length (zip X e)]"
    using assms by simp
  also have "\<dots> = map (\<lambda>(x, r). g x r) (map (\<lambda>i. zip X e ! i) [0..<length (zip X e)])"
    by (simp add: o_def)
  also have "\<dots> = map (\<lambda>(x, r). g x r) (zip X e)"
    by (simp only: map_nth)
  finally show ?thesis by simp
qed

lemma sum_list_delta_mult:
  "(\<Sum>k\<leftarrow>[0..<n]. f k * (if k = j then a k else (0::real))) = (if j < n then f j * a j else 0)"
  by (induction n) (auto simp: less_Suc_eq)

lemma mid23_core:
  assumes X: "rect n K X" and n: "0 < n" and K: "0 < K" and d: "length d = n"
  shows "(case matmul (mtranspose X) (mk n n (\<lambda>i j. if i = j then d ! i else 0)) of
            Inl err \<Rightarrow> Inl err | Inr XtD \<Rightarrow> matmul XtD X) = Inr (wcross K X d)"
proof -
  have Xm: "X = mk n K (\<lambda>i j. X ! i ! j)" using X by (rule rect_eq_mk)
  have T: "mtranspose X = mk K n (\<lambda>j i. X ! i ! j)"
    by (subst Xm) (simp add: mtranspose_mk n)
  have P1: "matmul (mtranspose X) (mk n n (\<lambda>i j. if i = j then d ! i else 0))
             = Inr (mk K n (\<lambda>j i. X ! i ! j * d ! i))"
    unfolding T by (simp add: matmul_mk K n) (rule mk_cong, simp add: sum_list_delta_mult)
  have P2: "matmul (mk K n (\<lambda>j i. X ! i ! j * d ! i)) X
             = Inr (mk K K (\<lambda>j l. \<Sum>i\<leftarrow>[0..<n]. X ! i ! j * d ! i * X ! i ! l))"
    by (subst (2) Xm) (simp add: matmul_mk K n)
  have "mk K K (\<lambda>j l. \<Sum>i\<leftarrow>[0..<n]. X ! i ! j * d ! i * X ! i ! l) = wcross K X d"
    unfolding wcross_def
  proof (rule mk_cong)
    fix j l
    have "(\<Sum>i\<leftarrow>[0..<n]. X ! i ! j * d ! i * X ! i ! l)
            = (\<Sum>i\<leftarrow>[0..<n]. (\<lambda>x r. r * (x ! j * x ! l)) (X ! i) (d ! i))"
      by (simp add: mult_ac)
    also have "\<dots> = (\<Sum>(x, r)\<leftarrow>zip X d. r * (x ! j * x ! l))"
      using X d by (intro sum_list_index_zip) (simp_all add: rect_def)
    finally show "(\<Sum>i\<leftarrow>[0..<n]. X ! i ! j * d ! i * X ! i ! l)
                   = (\<Sum>(x, r)\<leftarrow>zip X d. r * (x ! j * x ! l))" .
  qed
  with P1 P2 show ?thesis by simp
qed

lemma length_square: "length (square e) = length e"
  by (simp add: square_def)

lemma square_Nil_iff: "square e = [] \<longleftrightarrow> e = []"
  by (simp add: square_def)

lemma mid2_gen:
  assumes X: "rect n K X" and n: "0 < n" and K: "0 < K" and e: "e_hat \<noteq> []"
  shows "middle_step 2 n A X e_hat
           = Inr (wcross K X (map (\<lambda>i. square e_hat ! (i mod length e_hat)) [0..<n]))"
proof -
  let ?d = "map (\<lambda>i. square e_hat ! (i mod length e_hat)) [0..<n]"
  have "fill_diagonal (zeros n n) (square e_hat)
          = mk n n (\<lambda>i j. if i = j then square e_hat ! (i mod length e_hat) else 0)"
    using e n by (simp add: fill_diagonal_zeros square_Nil_iff length_square cong: if_cong)
  also have "\<dots> = mk n n (\<lambda>i j. if i = j then ?d ! i else 0)"
    by (rule mk_cong) simp
  finally have D: "fill_diagonal (zeros n n) (square e_hat)
          = mk n n (\<lambda>i j. if i = j then ?d ! i else 0)" .
  show ?thesis
    using mid23_core [OF X n K, of ?d] by (simp add: middle_step_def D)
qed

lemma cyc_same: "length e_hat = n \<Longrightarrow> map (\<lambda>i. square e_hat ! (i mod n)) [0..<n] = square e_hat"
  by (auto simp: square_def intro!: nth_equalityI)

lemma mid2:
  assumes X: "rect n K X" and n: "0 < n" and K: "0 < K" and e: "length e_hat = n"
  shows "middle_step 2 n A X e_hat = Inr (wcross K X (square e_hat))"
proof -
  have "e_hat \<noteq> []" using e n by auto
  from mid2_gen [OF X n K this, of A] show ?thesis by (simp add: cyc_same [OF e] e)
qed

lemma mtranspose_rect:
  assumes X: "rect n K X" and n: "0 < n"
  shows "mtranspose X = mk K n (\<lambda>j i. X ! i ! j)"
proof -
  have Xm: "X = mk n K (\<lambda>i j. X ! i ! j)" using X by (rule rect_eq_mk)
  show ?thesis by (subst Xm) (simp add: mtranspose_mk n)
qed

lemma mid3:
  assumes X: "rect n K X" and n: "0 < n" and K: "0 < K" and e: "length e_hat = n"
  shows "middle_step 3 n A X e_hat = Inr (wcross K X (square e_hat))"
  using mid23_core [OF X n K, of "square e_hat"] e
  by (simp add: middle_step_def diags_mk length_square)

lemma mid3_bad:
  assumes X: "rect n K X" and n: "0 < n" and K: "0 < K" and e: "length e_hat \<noteq> n"
  shows "middle_step 3 n A X e_hat = Inl ValueError"
  using e by (simp add: middle_step_def diags_mk length_square mtranspose_rect [OF X n] matmul_mk_bad K)

lemma mid4:
  assumes X: "rect n K X" and n: "0 < n" and K: "0 < K" and e: "length e_hat = n"
  shows "middle_step 4 n A X e_hat = Inr (mk K K (\<lambda>j l. xvec X e_hat j * xvec X e_hat l))"
proof -
  have T: "mtranspose X = mk K n (\<lambda>j i. X ! i ! j)" by (rule mtranspose_rect [OF X n])
  have P1: "matmul (mtranspose X) (reshape_col e_hat)
              = Inr (mk K 1 (\<lambda>j c. \<Sum>i\<leftarrow>[0..<n]. X ! i ! j * e_hat ! i))"
    unfolding T by (simp add: reshape_col_mk e matmul_mk K n)
  have S: "\<And>j. (\<Sum>i\<leftarrow>[0..<n]. X ! i ! j * e_hat ! i) = xvec X e_hat j"
    unfolding xvec_def using X e
    by (intro sum_list_index_zip [where g = "\<lambda>x r. x ! _ * r"]) (simp_all add: rect_def)
  have P2: "matmul (mk K (Suc 0) (\<lambda>j c. xvec X e_hat j)) (mtranspose (mk K (Suc 0) (\<lambda>j c. xvec X e_hat j)))
              = Inr (mk K K (\<lambda>j l. xvec X e_hat j * xvec X e_hat l))"
  proof -
    have "mtranspose (mk K 1 (\<lambda>j c. xvec X e_hat j)) = mk 1 K (\<lambda>c j. xvec X e_hat j)"
      using K by (rule mtranspose_mk)
    moreover have "matmul (mk K 1 (\<lambda>j c. xvec X e_hat j)) (mk 1 K (\<lambda>c j. xvec X e_hat j))
        = Inr (mk K K (\<lambda>j l. \<Sum>k\<leftarrow>[0..<1]. xvec X e_hat j * xvec X e_hat l))"
      using K by (intro matmul_mk) simp_all
    ultimately show ?thesis by simp
  qed
  show ?thesis
    by (simp add: middle_step_def P1 S P2)
qed

lemma mid4_bad:
  assumes X: "rect n K X" and n: "0 < n" and K: "0 < K" and e: "length e_hat \<noteq> n"
  shows "middle_step 4 n A X e_hat = Inl ValueError"
  using e by (simp add: middle_step_def reshape_col_mk mtranspose_rect [OF X n] matmul_mk_bad K)

lemma opt1_term:
  assumes x: "length x = 2"
  shows "matmul (smul c (mtranspose [x])) [x] = Inr (mk 2 2 (\<lambda>j l. c * (x ! j * x ! l)))"
proof -
  have r: "[x] = mk 1 2 (\<lambda>i j. x ! j)" using row_mk [of x] x by simp
  show ?thesis
    by (simp add: r mtranspose_mk smul_mk matmul_mk mult.assoc)
qed

lemma opt1_loop_ok:
  assumes X: "rect n 2 X"
  shows "\<forall>i\<in>set is. i < n \<and> i < length e_hat \<Longrightarrow>
         opt1_loop is X e_hat (mk 2 2 a)
           = Inr (mk 2 2 (\<lambda>j l. a j l + (\<Sum>i\<leftarrow>is. e_hat ! i ^ 2 * (X ! i ! j * X ! i ! l))))"
proof (induction "is" arbitrary: a)
  case Nil
  then show ?case by simp
next
  case (Cons i "is")
  have i: "i < n" "i < length e_hat" using Cons.prems by simp_all
  have lenX: "length X = n" and row: "length (X ! i) = 2"
    using X i by (simp_all add: rect_def list_all_length)
  have step: "opt1_loop (i # is) X e_hat (mk 2 2 a)
                = opt1_loop is X e_hat (mk 2 2 (\<lambda>j l. a j l + e_hat ! i ^ 2 * (X ! i ! j * X ! i ! l)))"
    using i lenX by (simp add: opt1_term [OF row] iadd_mk)
  have rest: "\<forall>i\<in>set is. i < n \<and> i < length e_hat" using Cons.prems by simp
  show ?case
    unfolding step Cons.IH [OF rest]
    by (simp add: add.assoc)
qed

section \<open>What the four options compute\<close>

text \<open>
  On a valid input, options 1, 2 and 3 of the benchmark cell (option 1 from an accumulator
  of zeros) return the weighted cross product \<open>X' diag(e_hat^2) X\<close>, which is the
  specification's sum of outer products; option 4 returns the outer product of \<open>X' e_hat\<close>
  with itself. The three options of the real-data cell all return the weighted cross
  product.
\<close>

lemma outer_mk: "length x = K \<Longrightarrow> outer x x = mk K K (\<lambda>j l. x ! j * x ! l)"
proof -
  assume K: "length x = K"
  have "map (\<lambda>a. map (\<lambda>b. a * b) (map (\<lambda>l. x ! l) [0..<length x])) (map (\<lambda>j. x ! j) [0..<length x])
          = mk K K (\<lambda>j l. x ! j * x ! l)"
    by (simp add: mk_def K o_def)
  then show ?thesis
    by (simp only: map_nth outer_def)
qed

lemma madd_mk: "madd (mk r c f) (mk r c g) = mk r c (\<lambda>i j. f i j + g i j)"
  by (simp add: madd_def mk_def zip_map_map zip_same_conv_map o_def)

lemma sum_outer_wcross:
  "list_all (\<lambda>x. length x = K) X \<Longrightarrow> sum_outer K X r = wcross K X (square r)"
proof (induction X arbitrary: r)
  case Nil
  then show ?case by (simp add: sum_outer_def wcross_def zeros_mk)
next
  case (Cons x X)
  show ?case
  proof (cases r)
    case Nil
    then show ?thesis by (simp add: sum_outer_def wcross_def zeros_mk square_def)
  next
    case (Cons a r')
    have IH: "sum_outer K X r' = wcross K X (square r')"
      using Cons.IH Cons.prems by simp
    have x: "length x = K" using Cons.prems by simp
    have "sum_outer K (x # X) (a # r') = madd (smul (a ^ 2) (outer x x)) (sum_outer K X r')"
      by (simp add: sum_outer_def)
    also have "\<dots> = wcross K (x # X) (square (a # r'))"
      unfolding IH by (simp add: wcross_def outer_mk [OF x] smul_mk madd_mk square_def)
    finally show ?thesis using Cons by simp
  qed
qed

lemma valid_inputD:
  assumes "valid_input K X e_hat"
  shows "rect (length X) K X" "0 < length X" "0 < K" "length e_hat = length X"
  using assms by (auto simp: valid_input_def)

lemma computeMiddle_1:
  assumes "valid_input 2 X e_hat"
  shows "computeMiddle 1 X e_hat = Inr (wcross 2 X (square e_hat))"
proof -
  note v = valid_inputD [OF assms]
  have "opt1_loop [0..<length X] X e_hat (mk 2 2 (\<lambda>j l. 0))
          = Inr (mk 2 2 (\<lambda>j l. 0 + (\<Sum>i\<leftarrow>[0..<length X]. e_hat ! i ^ 2 * (X ! i ! j * X ! i ! l))))"
    using v by (intro opt1_loop_ok) auto
  moreover have "\<And>j l. (\<Sum>i\<leftarrow>[0..<length X]. e_hat ! i ^ 2 * (X ! i ! j * X ! i ! l))
                  = (\<Sum>(x, r)\<leftarrow>zip X (square e_hat). r * (x ! j * x ! l))"
  proof -
    fix j l
    have "(\<Sum>i\<leftarrow>[0..<length X]. e_hat ! i ^ 2 * (X ! i ! j * X ! i ! l))
            = (\<Sum>i\<leftarrow>[0..<length X]. (\<lambda>x r. r * (x ! j * x ! l)) (X ! i) (square e_hat ! i))"
      using v(4) by (intro arg_cong [where f = sum_list] map_cong) (simp_all add: square_def)
    also have "\<dots> = (\<Sum>(x, r)\<leftarrow>zip X (square e_hat). r * (x ! j * x ! l))"
      using v(4) by (intro sum_list_index_zip) (simp_all add: length_square)
    finally show "(\<Sum>i\<leftarrow>[0..<length X]. e_hat ! i ^ 2 * (X ! i ! j * X ! i ! l))
                  = (\<Sum>(x, r)\<leftarrow>zip X (square e_hat). r * (x ! j * x ! l))" .
  qed
  ultimately show ?thesis
    by (simp add: computeMiddle_def middle_step_def zeros_mk wcross_def)
qed

lemma computeMiddle_2:
  assumes "valid_input K X e_hat"
  shows "computeMiddle 2 X e_hat = Inr (wcross K X (square e_hat))"
  using valid_inputD [OF assms] by (simp add: computeMiddle_def mid2)

lemma computeMiddle_3:
  assumes "valid_input K X e_hat"
  shows "computeMiddle 3 X e_hat = Inr (wcross K X (square e_hat))"
  using valid_inputD [OF assms] by (simp add: computeMiddle_def mid3)







lemma computeMiddle_closed:
  assumes v: "valid_input K X e_hat" and opt: "opt \<in> {1, 2, 3}" and K: "opt = 1 \<longrightarrow> K = 2"
  shows "computeMiddle opt X e_hat = Inr (wcross K X (square e_hat))"
proof -
  consider "opt = 1" | "opt = 2" | "opt = 3" using opt by auto
  then show ?thesis
  proof cases
    case 1
    with K have "K = 2" by simp
    with v have "computeMiddle 1 X e_hat = Inr (wcross K X (square e_hat))"
      using computeMiddle_1 [of X e_hat] by simp
    with 1 show ?thesis by simp
  next
    case 2 with v show ?thesis by (simp add: computeMiddle_2)
  next
    case 3 with v show ?thesis by (simp add: computeMiddle_3)
  qed
qed

lemma computeMiddle_123:
  assumes "valid_input K X e_hat" and "opt \<in> {1, 2, 3}" and "opt = 1 \<longrightarrow> K = 2"
  shows "computeMiddle opt X e_hat = Inr (sum_outer K X e_hat)"
proof -
  have "list_all (\<lambda>x. length x = K) X"
    using assms(1) by (simp add: valid_input_def rect_def)
  then have "sum_outer K X e_hat = wcross K X (square e_hat)"
    by (rule sum_outer_wcross)
  with computeMiddle_closed [OF assms] show ?thesis by simp
qed

lemma middle_step_reassigns:
  assumes "opt \<in> {2, 3, 4}"
  shows "middle_step opt n A X e_hat = middle_step opt n A' X e_hat"
  using assms by (auto simp: middle_step_def)

lemma middle_step_1_adds:
  assumes "rect n 2 X" and "length e_hat = n"
  shows "middle_step 1 n (mk 2 2 a) X e_hat
           = Inr (mk 2 2 (\<lambda>j l. a j l + (\<Sum>i\<leftarrow>[0..<n]. e_hat ! i ^ 2 * (X ! i ! j * X ! i ! l))))"
  using assms by (simp add: middle_step_def opt1_loop_ok)

lemma option_1_three_columns:
  "computeMiddle 1 [[1, 0, 1], [1, 1, 1], [1, 2, 5]] [1, 2, 3] = Inl ValueError"
  by code_simp

lemma outer_loop_ok:
  assumes X: "rect n K X" and K: "0 < K"
  shows "\<forall>i\<in>set is. i < n \<and> i < length e_hat \<Longrightarrow>
         outer_loop is X e_hat (mk K K a)
           = Inr (mk K K (\<lambda>j l. a j l + (\<Sum>i\<leftarrow>is. e_hat ! i ^ 2 * (X ! i ! j * X ! i ! l))))"
proof (induction "is" arbitrary: a)
  case Nil
  then show ?case by simp
next
  case (Cons i "is")
  have i: "i < n" "i < length e_hat" using Cons.prems by simp_all
  have lenX: "length X = n" and row: "length (X ! i) = K"
    using X i by (simp_all add: rect_def list_all_length)
  have step: "outer_loop (i # is) X e_hat (mk K K a)
                = outer_loop is X e_hat (mk K K (\<lambda>j l. a j l + e_hat ! i ^ 2 * (X ! i ! j * X ! i ! l)))"
    using i lenX K by (simp add: outer_mk [OF row] smul_mk iadd_mk)
  have rest: "\<forall>i\<in>set is. i < n \<and> i < length e_hat" using Cons.prems by simp
  show ?case
    unfolding step Cons.IH [OF rest]
    by (simp add: add.assoc)
qed

lemma index_sum_wcross:
  assumes "length X = n" and "length e_hat = n"
  shows "(\<Sum>i\<leftarrow>[0..<n]. e_hat ! i ^ 2 * (X ! i ! j * X ! i ! l))
           = (\<Sum>(x, r)\<leftarrow>zip X (square e_hat). r * (x ! j * x ! l))"
proof -
  have "(\<Sum>i\<leftarrow>[0..<n]. e_hat ! i ^ 2 * (X ! i ! j * X ! i ! l))
          = (\<Sum>i\<leftarrow>[0..<n]. (\<lambda>x r. r * (x ! j * x ! l)) (X ! i) (square e_hat ! i))"
    using assms(2) by (intro arg_cong [where f = sum_list] map_cong) (simp_all add: square_def)
  also have "\<dots> = (\<Sum>(x, r)\<leftarrow>zip X (square e_hat). r * (x ! j * x ! l))"
    using assms by (intro sum_list_index_zip) (simp_all add: length_square)
  finally show ?thesis .
qed

lemma realdata_1:
  assumes v: "valid_input K X e_hat"
  shows "realdata_middle 1 (length X) K X e_hat = Inr (wcross K X (square e_hat))"
proof -
  note d = valid_inputD [OF v]
  have "outer_loop [0..<length X] X e_hat (mk K K (\<lambda>j l. 0))
          = Inr (mk K K (\<lambda>j l. 0 + (\<Sum>i\<leftarrow>[0..<length X]. e_hat ! i ^ 2 * (X ! i ! j * X ! i ! l))))"
    using d by (intro outer_loop_ok) auto
  then show ?thesis
    using d(4) by (simp add: realdata_middle_def zeros_mk wcross_def index_sum_wcross)
qed

lemma realdata_3:
  assumes v: "valid_input K X e_hat"
  shows "realdata_middle 3 (length X) K X e_hat = Inr (wcross K X (square e_hat))"
  using valid_inputD [OF v] mid23_core [of "length X" K X "square e_hat"]
  by (simp add: realdata_middle_def diags_mk length_square)

lemma mul_column_mk:
  assumes X: "rect n K X" and e: "length e_hat = n"
  shows "mul_column X e_hat = Inr (mk n K (\<lambda>i j. X ! i ! j * e_hat ! i))"
proof -
  have len: "length X = n" using X by (simp add: rect_def)
  have "map2 (\<lambda>x a. map (\<lambda>b. b * a) x) X e_hat = mk n K (\<lambda>i j. X ! i ! j * e_hat ! i)"
  proof (rule nth_equalityI)
    show "length (map2 (\<lambda>x a. map (\<lambda>b. b * a) x) X e_hat) = length (mk n K (\<lambda>i j. X ! i ! j * e_hat ! i))"
      using len e by (simp add: length_mk)
  next
    fix i assume "i < length (map2 (\<lambda>x a. map (\<lambda>b. b * a) x) X e_hat)"
    then have i: "i < n" using len e by simp
    then have row: "length (X ! i) = K"
      using X by (simp add: rect_def list_all_length)
    have "map (\<lambda>b. b * e_hat ! i) (map (\<lambda>j. X ! i ! j) [0..<length (X ! i)])
            = map (\<lambda>j. X ! i ! j * e_hat ! i) [0..<K]"
      by (simp add: row o_def)
    then have "map (\<lambda>b. b * e_hat ! i) (X ! i) = map (\<lambda>j. X ! i ! j * e_hat ! i) [0..<K]"
      by (simp only: map_nth)
    then show "map2 (\<lambda>x a. map (\<lambda>b. b * a) x) X e_hat ! i = mk n K (\<lambda>i j. X ! i ! j * e_hat ! i) ! i"
      using i len e by (simp add: mk_row)
  qed
  then show ?thesis
    using len e by (simp add: mul_column_def nrows_def)
qed

lemma realdata_4:
  assumes v: "valid_input K X e_hat"
  shows "realdata_middle 4 (length X) K X e_hat = Inr (wcross K X (square e_hat))"
proof -
  note d = valid_inputD [OF v]
  let ?n = "length X"
  have Xe: "mul_column X e_hat = Inr (mk ?n K (\<lambda>i j. X ! i ! j * e_hat ! i))"
    using d(1,4) by (rule mul_column_mk)
  have P: "matmul (mtranspose (mk ?n K (\<lambda>i j. X ! i ! j * e_hat ! i))) (mk ?n K (\<lambda>i j. X ! i ! j * e_hat ! i))
      = Inr (mk K K (\<lambda>j l. \<Sum>i\<leftarrow>[0..<?n]. (X ! i ! j * e_hat ! i) * (X ! i ! l * e_hat ! i)))"
    using d(2,3) by (simp add: mtranspose_mk matmul_mk)
  have "\<And>j l. (\<Sum>i\<leftarrow>[0..<?n]. (X ! i ! j * e_hat ! i) * (X ! i ! l * e_hat ! i))
               = (\<Sum>i\<leftarrow>[0..<?n]. e_hat ! i ^ 2 * (X ! i ! j * X ! i ! l))"
    by (intro arg_cong [where f = sum_list] map_cong) (simp_all add: power2_eq_square)
  then show ?thesis
    using d(4) by (simp add: realdata_middle_def Xe P wcross_def index_sum_wcross)
qed

lemma realdata_middle_sum_outer:
  assumes "valid_input K X e_hat" and "opt \<in> {1, 3, 4}"
  shows "realdata_middle opt (length X) K X e_hat = Inr (sum_outer K X e_hat)"
proof -
  have "list_all (\<lambda>x. length x = K) X"
    using assms(1) by (simp add: valid_input_def rect_def)
  then have s: "sum_outer K X e_hat = wcross K X (square e_hat)"
    by (rule sum_outer_wcross)
  consider "opt = 1" | "opt = 3" | "opt = 4" using assms(2) by auto
  then show ?thesis
  proof cases
    case 1 then show ?thesis using realdata_1 [OF assms(1)] s by simp
  next
    case 2 then show ?thesis using realdata_3 [OF assms(1)] s by simp
  next
    case 3 then show ?thesis using realdata_4 [OF assms(1)] s by simp
  qed
qed

section \<open>The middle term\<close>

text \<open>
  Claim C3, as amended. For a design matrix of \<open>n \<ge> K\<close> rows and \<open>K\<close> columns and \<open>n\<close>
  residuals, options 1, 2 and 3 return the \<open>K\<close> by \<open>K\<close> matrix
  \<open>sum_i residual_i^2 * outer(x_i, x_i)\<close>, with no factor \<open>1/n\<close>. Option 1 adds into
  \<open>np.zeros((2, 2))\<close>, so it is stated for \<open>K = 2\<close>.
\<close>

theorem computeMiddle_sum_outer:
  assumes "valid_input K X e_hat" and "opt \<in> {1, 2, 3}" and "opt = 1 \<longrightarrow> K = 2"
  shows "computeMiddle opt X e_hat = Inr (sum_outer K X e_hat)"
  using assms by (rule computeMiddle_123)

text \<open>Witness of C3: the theorem at three observations, under option 1.\<close>

theorem computeMiddle_sum_outer_witness:
  "valid_input 2 [[1, 0], [1, 1], [1, 2]] [- 1 / 6, 1 / 3, - 1 / 6] \<and>
   computeMiddle 1 [[1, 0], [1, 1], [1, 2]] [- 1 / 6, 1 / 3, - 1 / 6]
     = Inr (sum_outer 2 [[1, 0], [1, 1], [1, 2]] [- 1 / 6, 1 / 3, - 1 / 6]) \<and>
   sum_outer 2 [[1, 0], [1, 1], [1, 2]] [- 1 / 6, 1 / 3, - 1 / 6] = [[1 / 6, 1 / 6], [1 / 6, 2 / 9]]"
proof -
  have v: "valid_input 2 [[1, 0], [1, 1], [1, 2]] [- 1 / 6, 1 / 3, - 1 / 6]"
    by (simp add: valid_input_def rect_def)
  have s: "sum_outer 2 [[1, 0], [1, 1], [1, 2]] [- 1 / 6, 1 / 3, - 1 / 6] = [[1 / 6, 1 / 6], [1 / 6, 2 / 9]]"
    by code_simp
  from computeMiddle_sum_outer [OF v, of 1] v s show ?thesis by simp
qed

text \<open>
  Claim C3 as it is written fails: on two observations with unit residuals option 2
  returns the plain sum, which is twice the matrix with the factor \<open>1/n\<close>.
\<close>

theorem computeMiddle_normalized_counterexample:
  "valid_input 2 [[1, 0], [1, 1]] [1, 1] \<and>
   computeMiddle 2 [[1, 0], [1, 1]] [1, 1] = Inr [[2, 1], [1, 1]] \<and>
   SandwichMiddle 2 [[1, 0], [1, 1]] [1, 1] = [[1, 1 / 2], [1 / 2, 1 / 2]] \<and>
   computeMiddle 2 [[1, 0], [1, 1]] [1, 1] \<noteq> Inr (SandwichMiddle 2 [[1, 0], [1, 1]] [1, 1])"
proof -
  have v: "valid_input 2 [[1, 0], [1, 1]] [1, 1]"
    by (simp add: valid_input_def rect_def)
  have c: "computeMiddle 2 [[1, 0], [1, 1]] [1, 1] = Inr [[2, 1], [1, 1]]"
    by code_simp
  have s: "SandwichMiddle 2 [[1, 0], [1, 1]] [1, 1] = [[1, 1 / 2], [1 / 2, 1 / 2]]"
    by code_simp
  show ?thesis unfolding c s using v by simp
qed







section \<open>Reordering the observations\<close>










section \<open>The inverse step\<close>

lemma det_2_2: "det [[a, b], [c, d]] = a * d - b * c"
  by (simp add: det_def minor_m_def numeral_2_eq_2)



text \<open>
  Option 1 adds \<open>K\<close> by \<open>K\<close> matrices into \<open>np.zeros((2, 2))\<close>. With three columns or more
  the first addition fails: the shapes do not broadcast.
\<close>

lemma opt1_term_K:
  assumes x: "length x = K" and K: "0 < K"
  shows "matmul (smul c (mtranspose [x])) [x] = Inr (mk K K (\<lambda>j l. c * (x ! j * x ! l)))"
proof -
  have r: "[x] = mk 1 K (\<lambda>i j. x ! j)" using row_mk [of x] x by simp
  have t: "mtranspose (mk 1 K (\<lambda>i j. x ! j)) = mk K 1 (\<lambda>j i. x ! j)"
    by (rule mtranspose_mk) simp
  have "matmul (mk K 1 (\<lambda>j i. c * x ! j)) (mk 1 K (\<lambda>i j. x ! j))
          = Inr (mk K K (\<lambda>j l. \<Sum>k\<leftarrow>[0..<1]. c * x ! j * x ! l))"
    using K by (intro matmul_mk) simp_all
  then show ?thesis
    unfolding r t smul_mk by (simp add: mult.assoc)
qed

lemma iadd_wide: "2 < K \<Longrightarrow> iadd (mk 2 2 a) (mk K K f) = Inl ValueError"
  by (simp add: iadd_def nrows_mk ncols_mk)

lemma computeMiddle_1_wide:
  assumes v: "valid_input K X e_hat" and K: "2 < K"
  shows "computeMiddle 1 X e_hat = Inl ValueError"
proof -
  note d = valid_inputD [OF v]
  have row: "length (X ! 0) = K"
    using d(1,2) by (simp add: rect_def list_all_length)
  have u: "[0..<length X] = 0 # [Suc 0..<length X]"
    using d(2) by (rule upt_conv_Cons)
  have e: "0 < length e_hat" using d(2,4) by simp
  show ?thesis
    unfolding computeMiddle_def middle_step_def zeros_mk u
    using d(2) e K by (simp add: opt1_term_K [OF row d(3)] iadd_wide)
qed




section \<open>Residuals of the wrong length\<close>

lemma opt1_loop_append:
  "opt1_loop (is @ js) X e_hat A =
     (case opt1_loop is X e_hat A of Inl err \<Rightarrow> Inl err | Inr A' \<Rightarrow> opt1_loop js X e_hat A')"
  by (induction "is" arbitrary: A) (simp_all split: sum.splits)

lemma opt1_short:
  assumes X: "rect n 2 X" and e: "length e_hat < n"
  shows "opt1_loop [0..<n] X e_hat (mk 2 2 a) = Inl IndexError"
proof -
  let ?m = "length e_hat"
  have "[0..<?m + (n - ?m)] = [0..<?m] @ [?m..<?m + (n - ?m)]"
    by (rule upt_add_eq_append) simp
  moreover have "[?m..<n] = ?m # [Suc ?m..<n]"
    using e by (rule upt_conv_Cons)
  ultimately have split: "[0..<n] = [0..<?m] @ ?m # [Suc ?m..<n]"
    using e by simp
  have "\<exists>b. opt1_loop [0..<?m] X e_hat (mk 2 2 a) = Inr (mk 2 2 b)"
    using e opt1_loop_ok [OF X, of "[0..<?m]" e_hat a] by auto
  then show ?thesis
    unfolding split opt1_loop_append by auto
qed

lemma opt1_long:
  assumes X: "rect n 2 X" and e: "n \<le> length e_hat"
  shows "opt1_loop [0..<n] X e_hat (mk 2 2 a) = opt1_loop [0..<n] X (take n e_hat) (mk 2 2 a)"
proof -
  have "opt1_loop [0..<n] X e_hat (mk 2 2 a)
          = Inr (mk 2 2 (\<lambda>j l. a j l + (\<Sum>i\<leftarrow>[0..<n]. e_hat ! i ^ 2 * (X ! i ! j * X ! i ! l))))"
    using e by (intro opt1_loop_ok [OF X]) auto
  moreover have "opt1_loop [0..<n] X (take n e_hat) (mk 2 2 a)
          = Inr (mk 2 2 (\<lambda>j l. a j l + (\<Sum>i\<leftarrow>[0..<n]. take n e_hat ! i ^ 2 * (X ! i ! j * X ! i ! l))))"
    using e by (intro opt1_loop_ok [OF X]) auto
  moreover have "\<And>j l. (\<Sum>i\<leftarrow>[0..<n]. take n e_hat ! i ^ 2 * (X ! i ! j * X ! i ! l))
                     = (\<Sum>i\<leftarrow>[0..<n]. e_hat ! i ^ 2 * (X ! i ! j * X ! i ! l))"
    by (intro arg_cong [where f = sum_list] map_cong) simp_all
  ultimately show ?thesis by simp
qed

lemma square_cyc:
  assumes "e_hat \<noteq> []"
  shows "map (\<lambda>i. square e_hat ! (i mod length e_hat)) [0..<n]
           = square (map (\<lambda>i. e_hat ! (i mod length e_hat)) [0..<n])"
  using assms by (simp add: square_def)

lemma cm1_short:
  assumes "rect n 2 X" and "length e_hat < n"
  shows "computeMiddle 1 X e_hat = Inl IndexError"
proof -
  have len: "length X = n" using assms(1) by (simp add: rect_def)
  have "opt1_loop [0..<n] X e_hat (mk 2 2 (\<lambda>i j. 0)) = Inl IndexError"
    using assms by (rule opt1_short)
  then show ?thesis
    by (simp add: computeMiddle_def middle_step_def zeros_mk len)
qed

lemma cm1_long:
  assumes "rect n 2 X" and "2 \<le> n" and "n \<le> length e_hat"
  shows "computeMiddle 1 X e_hat = Inr (sum_outer 2 X (take n e_hat))"
proof -
  have len: "length X = n" using assms(1) by (simp add: rect_def)
  have v: "valid_input 2 X (take n e_hat)"
    using assms len by (simp add: valid_input_def)
  have "opt1_loop [0..<n] X e_hat (mk 2 2 (\<lambda>i j. 0))
          = opt1_loop [0..<n] X (take n e_hat) (mk 2 2 (\<lambda>i j. 0))"
    using assms(1,3) by (rule opt1_long)
  then have "computeMiddle 1 X e_hat = computeMiddle 1 X (take n e_hat)"
    by (simp add: computeMiddle_def middle_step_def zeros_mk len)
  also have "\<dots> = Inr (sum_outer 2 X (take n e_hat))"
    using v by (rule computeMiddle_123) simp_all
  finally show ?thesis .
qed

lemma cm2_cyc:
  assumes "rect n K X" and "0 < K" and "0 < n" and "e_hat \<noteq> []"
  shows "computeMiddle 2 X e_hat
           = Inr (sum_outer K X (map (\<lambda>i. e_hat ! (i mod length e_hat)) [0..<n]))"
proof -
  have len: "length X = n" and rows: "list_all (\<lambda>x. length x = K) X"
    using assms(1) by (simp_all add: rect_def)
  have "middle_step 2 n (zeros 2 2) X e_hat
          = Inr (wcross K X (map (\<lambda>i. square e_hat ! (i mod length e_hat)) [0..<n]))"
    using assms(1,3,2,4) by (rule mid2_gen)
  also have "map (\<lambda>i. square e_hat ! (i mod length e_hat)) [0..<n]
               = square (map (\<lambda>i. e_hat ! (i mod length e_hat)) [0..<n])"
    using assms(4) by (rule square_cyc)
  also have "wcross K X (square (map (\<lambda>i. e_hat ! (i mod length e_hat)) [0..<n]))
               = sum_outer K X (map (\<lambda>i. e_hat ! (i mod length e_hat)) [0..<n])"
    using rows by (rule sum_outer_wcross [symmetric])
  finally show ?thesis
    by (simp add: computeMiddle_def len)
qed

lemma cm34_bad:
  assumes "rect n K X" and "0 < K" and "0 < n" and "length e_hat \<noteq> n"
  shows "computeMiddle 3 X e_hat = Inl ValueError" and "computeMiddle 4 X e_hat = Inl ValueError"
proof -
  have len: "length X = n" using assms(1) by (simp add: rect_def)
  show "computeMiddle 3 X e_hat = Inl ValueError"
    unfolding computeMiddle_def len using assms(1,3,2,4) by (rule mid3_bad)
  show "computeMiddle 4 X e_hat = Inl ValueError"
    unfolding computeMiddle_def len using assms(1,3,2,4) by (rule mid4_bad)
qed

lemma cm34_good:
  assumes "rect n K X" and "0 < K" and "0 < n" and "length e_hat = n"
  shows "\<not> isl (computeMiddle 3 X e_hat)" and "\<not> isl (computeMiddle 4 X e_hat)"
proof -
  have len: "length X = n" using assms(1) by (simp add: rect_def)
  have "middle_step 3 n (zeros 2 2) X e_hat = Inr (wcross K X (square e_hat))"
    using assms(1,3,2,4) by (rule mid3)
  then show "\<not> isl (computeMiddle 3 X e_hat)"
    by (simp add: computeMiddle_def len)
  have "middle_step 4 n (zeros 2 2) X e_hat = Inr (mk K K (\<lambda>j l. xvec X e_hat j * xvec X e_hat l))"
    using assms(1,3,2,4) by (rule mid4)
  then show "\<not> isl (computeMiddle 4 X e_hat)"
    by (simp add: computeMiddle_def len)
qed

text \<open>
  Claim C4, as amended. The notebook has no check of its own; what happens when the
  number of residuals differs from the number \<open>n\<close> of rows depends on the option.
  Option 1 (for \<open>K = 2\<close>) fails with \<open>IndexError\<close> exactly when there are fewer than \<open>n\<close>
  residuals, and ignores the residuals after the first \<open>n\<close>. Option 2 does not fail on
  a non-empty array of residuals: \<open>np.fill_diagonal\<close> repeats or cuts it to length \<open>n\<close>.
  Options 3 and 4 fail with the \<open>ValueError\<close> of the matrix product exactly when the
  lengths differ.
\<close>

theorem computeMiddle_dimension_errors:
  assumes "rect n K X" and "0 < K" and "K \<le> n"
  shows "(K = 2 \<longrightarrow>
            (length e_hat < n \<longrightarrow> computeMiddle 1 X e_hat = Inl IndexError) \<and>
            (n \<le> length e_hat \<longrightarrow> computeMiddle 1 X e_hat = Inr (sum_outer 2 X (take n e_hat)))) \<and>
         (e_hat \<noteq> [] \<longrightarrow>
            computeMiddle 2 X e_hat
              = Inr (sum_outer K X (map (\<lambda>i. e_hat ! (i mod length e_hat)) [0..<n]))) \<and>
         (length e_hat \<noteq> n \<longrightarrow>
            computeMiddle 3 X e_hat = Inl ValueError \<and> computeMiddle 4 X e_hat = Inl ValueError) \<and>
         (length e_hat = n \<longrightarrow>
            \<not> isl (computeMiddle 3 X e_hat) \<and> \<not> isl (computeMiddle 4 X e_hat))"
proof (intro conjI impI)
  have n: "0 < n" using assms(2,3) by simp
  {
    assume "K = 2" and "length e_hat < n"
    then show "computeMiddle 1 X e_hat = Inl IndexError"
      using assms(1) by (intro cm1_short [of n]) simp_all
  next
    assume "K = 2" and "n \<le> length e_hat"
    then show "computeMiddle 1 X e_hat = Inr (sum_outer 2 X (take n e_hat))"
      using assms by (intro cm1_long) simp_all
  next
    assume "e_hat \<noteq> []"
    then show "computeMiddle 2 X e_hat
                = Inr (sum_outer K X (map (\<lambda>i. e_hat ! (i mod length e_hat)) [0..<n]))"
      using assms(1,2) n by (intro cm2_cyc)
  next
    assume "length e_hat \<noteq> n"
    then show "computeMiddle 3 X e_hat = Inl ValueError"
      using assms(1,2) n by (intro cm34_bad(1) [of n K])
  next
    assume "length e_hat \<noteq> n"
    then show "computeMiddle 4 X e_hat = Inl ValueError"
      using assms(1,2) n by (intro cm34_bad(2) [of n K])
  next
    assume "length e_hat = n"
    then show "\<not> isl (computeMiddle 3 X e_hat)"
      using assms(1,2) n by (intro cm34_good(1) [of n K])
  next
    assume "length e_hat = n"
    then show "\<not> isl (computeMiddle 4 X e_hat)"
      using assms(1,2) n by (intro cm34_good(2) [of n K])
  }
qed

text \<open>
  Witness of C4: the theorem at a design matrix of two rows, with one, two and three
  residuals.
\<close>

theorem computeMiddle_dimension_errors_witness:
  "rect 2 2 [[1, 0], [1, 1]] \<and>
   computeMiddle 1 [[1, 0], [1, 1]] [3] = Inl IndexError \<and>
   computeMiddle 1 [[1, 0], [1, 1]] [1, 1, 5] = Inr (sum_outer 2 [[1, 0], [1, 1]] [1, 1]) \<and>
   computeMiddle 2 [[1, 0], [1, 1]] [3] = Inr (sum_outer 2 [[1, 0], [1, 1]] [3, 3]) \<and>
   computeMiddle 3 [[1, 0], [1, 1]] [3] = Inl ValueError \<and>
   computeMiddle 4 [[1, 0], [1, 1]] [3] = Inl ValueError \<and>
   \<not> isl (computeMiddle 3 [[1, 0], [1, 1]] [1, 1]) \<and>
   \<not> isl (computeMiddle 4 [[1, 0], [1, 1]] [1, 1])"
proof -
  have r: "rect 2 2 [[1, 0], [1, 1]]"
    by (simp add: rect_def)
  have u: "[0..<2] = [0, 1]"
    by (simp add: upt_conv_Cons)
  from computeMiddle_dimension_errors [OF r, of "[3]"]
       computeMiddle_dimension_errors [OF r, of "[1, 1, 5]"]
       computeMiddle_dimension_errors [OF r, of "[1, 1]"] r
  show ?thesis by (simp add: u)
qed

text \<open>
  Claim C4 as it is written fails: with three residuals for two rows option 1 returns a
  matrix, and with four residuals for five rows, the example of the specification, so does
  option 2.
\<close>

theorem computeMiddle_dimension_counterexample:
  "length [1, 1, 5 :: real] \<noteq> length [[1, 0], [1, 1 :: real]] \<and>
   computeMiddle 1 [[1, 0], [1, 1]] [1, 1, 5] = Inr [[2, 1], [1, 1]] \<and>
   length [1, 2, 3, 4 :: real] \<noteq> length [[1, 0], [1, 1], [1, 2], [1, 3], [1, 4 :: real]] \<and>
   computeMiddle 2 [[1, 0], [1, 1], [1, 2], [1, 3], [1, 4]] [1, 2, 3, 4]
     = Inr [[31, 74], [74, 200]]"
proof -
  have a: "computeMiddle 1 [[1, 0], [1, 1]] [1, 1, 5] = Inr [[2, 1], [1, 1]]"
    by code_simp
  have b: "computeMiddle 2 [[1, 0], [1, 1], [1, 2], [1, 3], [1, 4]] [1, 2, 3, 4]
             = Inr [[31, 74], [74, 200]]"
    by code_simp
  show ?thesis unfolding a b by simp
qed

section \<open>The pair that the generator returns\<close>

lemma length_normal: "normal draw n g = (xs, g') \<Longrightarrow> length xs = n"
  by (induction n arbitrary: g xs g') (auto split: prod.splits)

lemma design_rect: "rect (length x) 2 (map (\<lambda>a. [1, a]) x)"
  by (simp add: rect_def list_all_iff)

lemma matvec_mk:
  "0 < r \<Longrightarrow> length v = c \<Longrightarrow> \<exists>w. matvec (mk r c f) v = Inr w \<and> length w = r"
  by (simp add: matvec_def ncols_mk length_mk)

lemma lpm_closed:
  assumes n: "0 < n" and e: "normal draw n g = (e, g1)" and x: "normal draw n g1 = (x, g2)"
    and G: "matmul (mtranspose (map (\<lambda>a. [1, a]) x)) (map (\<lambda>a. [1, a]) x) = Inr XtX"
  shows "linalg_inv XtX = Inr B \<Longrightarrow> rect 2 2 B \<Longrightarrow>
           \<exists>e_hat. lpm linalg_inv draw n g = Inr ((map (\<lambda>a. [1, a]) x, e_hat), g2) \<and> length e_hat = n"
    and "linalg_inv XtX = Inl err \<Longrightarrow> lpm linalg_inv draw n g = Inl err"
proof -
  let ?X = "map (\<lambda>a. [1, a]) x"
  have le: "length e = n" and lx: "length x = n"
    using e x by (auto dest: length_normal)
  have X: "rect n 2 ?X" using design_rect [of x] lx by simp
  have nc: "ncols ?X = 2" using X n by (rule rect_ncols)
  have mv: "matvec ?X [- 1, 1] = Inr (map (\<lambda>r. dot r [- 1, 1]) ?X)"
    using nc by (simp add: matvec_def)
  have T: "mtranspose ?X = mk 2 n (\<lambda>j i. ?X ! i ! j)"
    using X n by (rule mtranspose_rect)
  let ?Y = "map (\<lambda>v. if 0 \<le> v then 1 else 0) (map2 (+) (map (\<lambda>r. dot r [- 1, 1]) ?X) e)"
  have lY: "length ?Y = n" using le lx by simp
  have head: "lpm linalg_inv draw n g =
     (case linalg_inv XtX of Inl err \<Rightarrow> Inl err | Inr XtX_inv \<Rightarrow>
      case matmul XtX_inv (mtranspose ?X) of Inl err \<Rightarrow> Inl err | Inr P \<Rightarrow>
      case matvec P ?Y of Inl err \<Rightarrow> Inl err | Inr bhat \<Rightarrow>
      if length bhat \<le> 1 then Inl IndexError
      else case matvec ?X bhat of Inl err \<Rightarrow> Inl err | Inr Xbhat \<Rightarrow>
      Inr ((?X, map2 (-) ?Y Xbhat), g2))"
    unfolding lpm_def Let_def by (simp add: e x mv G del: map_map)
  show "lpm linalg_inv draw n g = Inl err" if "linalg_inv XtX = Inl err"
    using that by (simp add: head)
  show "\<exists>e_hat. lpm linalg_inv draw n g = Inr ((?X, e_hat), g2) \<and> length e_hat = n"
    if B: "linalg_inv XtX = Inr B" and rB: "rect 2 2 B"
  proof -
    have Bm: "B = mk 2 2 (\<lambda>i j. B ! i ! j)" using rB by (rule rect_eq_mk)
    have P: "matmul (mk 2 2 (\<lambda>i j. B ! i ! j)) (mtranspose ?X)
               = Inr (mk 2 n (\<lambda>i j. \<Sum>k\<leftarrow>[0..<2]. B ! i ! k * ?X ! j ! k))"
      unfolding T by (rule matmul_mk) simp_all
    have "\<exists>w. matvec (mk 2 n (\<lambda>i j. \<Sum>k\<leftarrow>[0..<2]. B ! i ! k * ?X ! j ! k)) ?Y = Inr w
            \<and> length w = 2"
      by (rule matvec_mk [OF _ lY]) simp
    then obtain bhat where b: "matvec (mk 2 n (\<lambda>i j. \<Sum>k\<leftarrow>[0..<2]. B ! i ! k * ?X ! j ! k)) ?Y = Inr bhat"
        and lb: "length bhat = 2"
      by blast
    have P': "matmul B (mtranspose ?X) = Inr (mk 2 n (\<lambda>i j. \<Sum>k\<leftarrow>[0..<2]. B ! i ! k * ?X ! j ! k))"
      using P Bm by simp
    have "matvec ?X bhat = Inr (map (\<lambda>r. dot r bhat) ?X)"
      using nc lb by (simp add: matvec_def)
    then have "lpm linalg_inv draw n g = Inr ((?X, map2 (-) ?Y (map (\<lambda>r. dot r bhat) ?X)), g2)"
      using lb by (simp add: head B P' b del: map_map)
    moreover have "length (map2 (-) ?Y (map (\<lambda>r. dot r bhat) ?X)) = n"
      using lY lx by simp
    ultimately show ?thesis by blast
  qed
qed

text \<open>
  Claim C10, as amended. \<open>lpm(n)\<close> inverts \<open>X'X\<close> before it returns, with no guard. For
  \<open>n \<ge> 1\<close>: when \<open>np.linalg.inv\<close> raises on \<open>X'X\<close>, \<open>lpm(n)\<close> raises the same error and
  returns nothing; when \<open>np.linalg.inv\<close> returns (a matrix of the shape of its argument,
  2 by 2), \<open>lpm(n)\<close> returns a pair \<open>(X, e_hat)\<close> where \<open>X\<close> has \<open>n\<close> rows and 2 columns,
  the first column is identically one, and \<open>e_hat\<close> has length \<open>n\<close>, the number of rows of
  \<open>X\<close>. So \<open>lpm\<close> may raise, and every pair it returns is aligned.
\<close>

theorem lpm_aligned_pair:
  assumes "0 < n" and "normal draw n g = (e, g1)" and "normal draw n g1 = (x, g2)"
    and "matmul (mtranspose (map (\<lambda>a. [1, a]) x)) (map (\<lambda>a. [1, a]) x) = Inr XtX"
  shows "(linalg_inv XtX = Inl err \<longrightarrow> lpm linalg_inv draw n g = Inl err) \<and>
         (linalg_inv XtX = Inr B \<and> rect 2 2 B \<longrightarrow>
            (\<exists>X e_hat. lpm linalg_inv draw n g = Inr ((X, e_hat), g2) \<and> rect n 2 X \<and>
               list_all (\<lambda>r. r ! 0 = 1) X \<and> length e_hat = n \<and> length e_hat = nrows X))"
proof (intro conjI impI)
  assume "linalg_inv XtX = Inl err"
  then show "lpm linalg_inv draw n g = Inl err"
    by (rule lpm_closed(2) [OF assms])
next
  assume "linalg_inv XtX = Inr B \<and> rect 2 2 B"
  then obtain e_hat where
    r: "lpm linalg_inv draw n g = Inr ((map (\<lambda>a. [1, a]) x, e_hat), g2)" and l: "length e_hat = n"
    using lpm_closed(1) [OF assms] by blast
  have lx: "length x = n" using assms(3) by (rule length_normal)
  have "rect n 2 (map (\<lambda>a. [1, a]) x)"
    using design_rect [of x] lx by simp
  moreover have "list_all (\<lambda>r. r ! 0 = 1) (map (\<lambda>a. [1, a]) x)"
    by (simp add: list_all_iff)
  moreover have "length e_hat = nrows (map (\<lambda>a. [1, a]) x)"
    using l lx by (simp add: nrows_def)
  ultimately show "\<exists>X e_hat. lpm linalg_inv draw n g = Inr ((X, e_hat), g2) \<and> rect n 2 X \<and>
      list_all (\<lambda>r. r ! 0 = 1) X \<and> length e_hat = n \<and> length e_hat = nrows X"
    using r l by blast
qed

lemma toy_normal_0: "normal toy_draw 3 0 = ([0, 1, 2], 3)"
  by code_simp

lemma toy_normal_3: "normal toy_draw 3 3 = ([0, 1, 2], 6)"
  by code_simp

text \<open>
  Witness of C10: the theorem at \<open>n = 3\<close> with the test generator seeded with 0 and the
  exact inverse, which returns on \<open>X'X\<close>.
\<close>

theorem lpm_aligned_pair_witness:
  "(0::nat) < 3 \<and> normal toy_draw 3 0 = ([0, 1, 2], 3) \<and> normal toy_draw 3 3 = ([0, 1, 2], 6) \<and>
   matmul (mtranspose (map (\<lambda>a. [1, a]) [0, 1, 2])) (map (\<lambda>a. [1, a]) [0, 1, 2])
     = Inr [[3, 3], [3, 5]] \<and>
   exact_inv [[3, 3], [3, 5]] = Inr [[5 / 6, - 1 / 2], [- 1 / 2, 1 / 2]] \<and>
   rect 2 2 [[5 / 6, - 1 / 2], [- 1 / 2, 1 / 2]] \<and>
   (\<exists>X e_hat. lpm exact_inv toy_draw 3 0 = Inr ((X, e_hat), 6) \<and> rect 3 2 X \<and>
      list_all (\<lambda>r. r ! 0 = 1) X \<and> length e_hat = 3 \<and> length e_hat = nrows X)"
proof -
  have G: "matmul (mtranspose (map (\<lambda>a. [1, a]) [0, 1, 2])) (map (\<lambda>a. [1, a]) [0, 1, 2])
             = Inr [[3, 3], [3, 5]]"
    by code_simp
  have B: "exact_inv [[3, 3], [3, 5]] = Inr [[5 / 6, - 1 / 2], [- 1 / 2, 1 / 2]]"
    by code_simp
  have r: "rect 2 2 [[5 / 6, - 1 / 2], [- 1 / 2, 1 / 2]]"
    by (simp add: rect_def)
  from lpm_aligned_pair [where linalg_inv = exact_inv
      and B = "[[5 / 6, - 1 / 2], [- 1 / 2, 1 / 2]]", OF _ toy_normal_0 toy_normal_3 G]
    B r G toy_normal_0 toy_normal_3
  show ?thesis by simp
qed

text \<open>
  Claim C10 as it is written fails: \<open>lpm\<close> does not return a pair for every \<open>n \<ge> 1\<close>. In
  the run below \<open>n = 1\<close>, the covariate drawn is 1, the design matrix is \<open>[[1, 1]]\<close>,
  \<open>X'X\<close> is the matrix of ones, on which the inverse raises, and \<open>lpm(1)\<close> raises with it.
\<close>

theorem lpm_single_observation_counterexample:
  "normal toy_draw 1 (toy_seed 0) = ([0], 1) \<and> normal toy_draw 1 1 = ([1], 2) \<and>
   matmul (mtranspose [[1, 1]]) [[1, 1]] = Inr [[1, 1], [1, 1]] \<and>
   exact_inv [[1, 1], [1, 1]] = Inl LinAlgError \<and>
   lpm exact_inv toy_draw 1 (toy_seed 0) = Inl LinAlgError"
proof -
  have "normal toy_draw 1 (toy_seed 0) = ([0], 1)" "normal toy_draw 1 1 = ([1], 2)"
    by code_simp+
  moreover have "matmul (mtranspose [[1, 1]]) [[1, 1]] = Inr [[1, 1], [1, 1]]"
    by code_simp
  moreover have "exact_inv [[1, 1], [1, 1]] = Inl LinAlgError"
    by code_simp
  moreover have "lpm exact_inv toy_draw 1 (toy_seed 0) = Inl LinAlgError"
    by code_simp
  ultimately show ?thesis by simp
qed

lemma rep_data_seed: "rep_data linalg_inv seed draw n i g = lpm linalg_inv draw n (seed i)"
  by (simp add: rep_data_def)

lemma rep_loop_inputs:
  "rep_loop linalg_inv seed draw opt n is s = Inr (tr, s') \<Longrightarrow>
     map (\<lambda>t. Inr (fst t)) tr = map (\<lambda>i. map_sum id fst (lpm linalg_inv draw n (seed i))) is"
proof (induction "is" arbitrary: s tr s')
  case Nil
  then show ?case by simp
next
  case (Cons i "is")
  from Cons.prems obtain d M B g1 tr1 where
    r: "replication linalg_inv seed draw opt n i s = Inr (d, M, B, g1)"
    and l: "rep_loop linalg_inv seed draw opt n is (g1, M) = Inr (tr1, s')"
    and t: "tr = (d, M, B) # tr1"
    by (auto split: sum.splits prod.splits)
  from r have "map_sum id fst (lpm linalg_inv draw n (seed i)) = Inr d"
    by (auto simp: replication_def rep_data_seed split: sum.splits prod.splits)
  with Cons.IH [OF l] t show ?case by (simp add: id_def)
qed

lemma map_Inr_fst_eq:
  "map (\<lambda>t. Inr (fst t)) xs = map (\<lambda>t. Inr (fst t)) ys \<Longrightarrow> map fst xs = map fst ys"
proof (induction xs arbitrary: ys)
  case Nil
  then show ?case by simp
next
  case (Cons a xs)
  then show ?case by (cases ys) auto
qed

text \<open>
  Claim C9. Each replication linalg_inv seeds the generator with its index before it draws, so the
  data of replication \<open>i\<close> do not depend on the generator state the replication finds;
  two runs of the replication loop, under any two options and from any two generator
  states, feed the same pairs to the estimator, replication by replication, namely the
  pairs that \<open>lpm(n)\<close> returns from the generator seeded with \<open>0, 1, ..., Rep - 1\<close>.
\<close>

theorem benchmark_inputs_seeded:
  assumes "benchmark_opt linalg_inv seed draw n Rep opt g = Inr (tr, s)"
    and "benchmark_opt linalg_inv seed draw n Rep opt' g' = Inr (tr', s')"
  shows "rep_data linalg_inv seed draw n i g = rep_data linalg_inv seed draw n i g' \<and>
         map fst tr = map fst tr' \<and>
         map (\<lambda>t. Inr (fst t)) tr = map (\<lambda>i. map_sum id fst (lpm linalg_inv draw n (seed i))) [0..<Rep]"
proof -
  have a: "map (\<lambda>t. Inr (fst t)) tr = map (\<lambda>i. map_sum id fst (lpm linalg_inv draw n (seed i))) [0..<Rep]"
    using assms(1) unfolding benchmark_opt_def by (rule rep_loop_inputs)
  have b: "map (\<lambda>t. Inr (fst t)) tr' = map (\<lambda>i. map_sum id fst (lpm linalg_inv draw n (seed i))) [0..<Rep]"
    using assms(2) unfolding benchmark_opt_def by (rule rep_loop_inputs)
  have "map (\<lambda>t. Inr (fst t) :: error + matrix \<times> vec) tr = map (\<lambda>t. Inr (fst t)) tr'"
    using a b by simp
  then have "map fst tr = map fst tr'"
    by (rule map_Inr_fst_eq)
  with a show ?thesis by (simp add: rep_data_seed)
qed

section \<open>Runs of the replication loop\<close>

text \<open>
  The runs below are on the test data: the test generator, and the exact inverse on the
  matrix \<open>X'X = [[3, 3], [3, 5]]\<close> of both replications.
\<close>

lemma toy_lpm_0:
  "lpm exact_inv toy_draw 3 (toy_seed 0) = Inr (([[1, 0], [1, 1], [1, 2]], [- 1 / 6, 1 / 3, - 1 / 6]), 6)"
  by code_simp

lemma toy_lpm_1:
  "lpm exact_inv toy_draw 3 (toy_seed 1) = Inr (([[1, 1], [1, 2], [1, 0]], [1 / 3, - 1 / 6, - 1 / 6]), 7)"
  by code_simp

lemma toy_step_1_0:
  "sandwich_step exact_inv 1 3 (zeros 2 2) [[1, 0], [1, 1], [1, 2]] [- 1 / 6, 1 / 3, - 1 / 6]
     = Inr ([[1 / 6, 1 / 6], [1 / 6, 2 / 9]], [[7 / 216, - 1 / 72], [- 1 / 72, 1 / 72]])"
  by code_simp

lemma toy_step_1_1:
  "sandwich_step exact_inv 1 3 [[1 / 6, 1 / 6], [1 / 6, 2 / 9]] [[1, 1], [1, 2], [1, 0]] [1 / 3, - 1 / 6, - 1 / 6]
     = Inr ([[1 / 3, 1 / 3], [1 / 3, 4 / 9]], [[7 / 108, - 1 / 36], [- 1 / 36, 1 / 36]])"
  by code_simp

lemma toy_step_2_0:
  "sandwich_step exact_inv 2 3 (zeros 2 2) [[1, 0], [1, 1], [1, 2]] [- 1 / 6, 1 / 3, - 1 / 6]
     = Inr ([[1 / 6, 1 / 6], [1 / 6, 2 / 9]], [[7 / 216, - 1 / 72], [- 1 / 72, 1 / 72]])"
  by code_simp

lemma toy_step_2_1:
  "sandwich_step exact_inv 2 3 [[1 / 6, 1 / 6], [1 / 6, 2 / 9]] [[1, 1], [1, 2], [1, 0]] [1 / 3, - 1 / 6, - 1 / 6]
     = Inr ([[1 / 6, 1 / 6], [1 / 6, 2 / 9]], [[7 / 216, - 1 / 72], [- 1 / 72, 1 / 72]])"
  by code_simp

lemma upt_0_2: "[0..<2] = [0, 1]"
  by (simp add: upt_conv_Cons)

lemma toy_benchmark_1:
  "benchmark_opt exact_inv toy_seed toy_draw 3 2 1 g =
     Inr ([(([[1, 0], [1, 1], [1, 2]], [- 1 / 6, 1 / 3, - 1 / 6]),
            [[1 / 6, 1 / 6], [1 / 6, 2 / 9]], [[7 / 216, - 1 / 72], [- 1 / 72, 1 / 72]]),
           (([[1, 1], [1, 2], [1, 0]], [1 / 3, - 1 / 6, - 1 / 6]),
            [[1 / 3, 1 / 3], [1 / 3, 4 / 9]], [[7 / 108, - 1 / 36], [- 1 / 36, 1 / 36]])],
          (7, [[1 / 3, 1 / 3], [1 / 3, 4 / 9]]))"
  by (simp only: benchmark_opt_def upt_0_2 rep_loop.simps replication_def rep_data_def Let_def
        toy_lpm_0 toy_lpm_1 toy_step_1_0 toy_step_1_1 sum.case prod.case fst_conv snd_conv)

lemma toy_benchmark_2:
  "benchmark_opt exact_inv toy_seed toy_draw 3 2 2 g =
     Inr ([(([[1, 0], [1, 1], [1, 2]], [- 1 / 6, 1 / 3, - 1 / 6]),
            [[1 / 6, 1 / 6], [1 / 6, 2 / 9]], [[7 / 216, - 1 / 72], [- 1 / 72, 1 / 72]]),
           (([[1, 1], [1, 2], [1, 0]], [1 / 3, - 1 / 6, - 1 / 6]),
            [[1 / 6, 1 / 6], [1 / 6, 2 / 9]], [[7 / 216, - 1 / 72], [- 1 / 72, 1 / 72]])],
          (7, [[1 / 6, 1 / 6], [1 / 6, 2 / 9]]))"
  by (simp only: benchmark_opt_def upt_0_2 rep_loop.simps replication_def rep_data_def Let_def
        toy_lpm_0 toy_lpm_1 toy_step_2_0 toy_step_2_1 sum.case prod.case fst_conv snd_conv)

text \<open>
  Witness of C9: the theorem at two replications of three observations, with the test
  generator and the exact inverse, option 1 started from generator state 0 and option 2
  from generator state 5.
\<close>

theorem benchmark_inputs_seeded_witness:
  "benchmark_opt exact_inv toy_seed toy_draw 3 2 1 0 =
     Inr ([(([[1, 0], [1, 1], [1, 2]], [- 1 / 6, 1 / 3, - 1 / 6]),
            [[1 / 6, 1 / 6], [1 / 6, 2 / 9]], [[7 / 216, - 1 / 72], [- 1 / 72, 1 / 72]]),
           (([[1, 1], [1, 2], [1, 0]], [1 / 3, - 1 / 6, - 1 / 6]),
            [[1 / 3, 1 / 3], [1 / 3, 4 / 9]], [[7 / 108, - 1 / 36], [- 1 / 36, 1 / 36]])],
          (7, [[1 / 3, 1 / 3], [1 / 3, 4 / 9]])) \<and>
   benchmark_opt exact_inv toy_seed toy_draw 3 2 2 5 =
     Inr ([(([[1, 0], [1, 1], [1, 2]], [- 1 / 6, 1 / 3, - 1 / 6]),
            [[1 / 6, 1 / 6], [1 / 6, 2 / 9]], [[7 / 216, - 1 / 72], [- 1 / 72, 1 / 72]]),
           (([[1, 1], [1, 2], [1, 0]], [1 / 3, - 1 / 6, - 1 / 6]),
            [[1 / 6, 1 / 6], [1 / 6, 2 / 9]], [[7 / 216, - 1 / 72], [- 1 / 72, 1 / 72]])],
          (7, [[1 / 6, 1 / 6], [1 / 6, 2 / 9]])) \<and>
   rep_data exact_inv toy_seed toy_draw 3 1 0 = rep_data exact_inv toy_seed toy_draw 3 1 5 \<and>
   map (\<lambda>i. map_sum id fst (lpm exact_inv toy_draw 3 (toy_seed i))) [0..<2]
     = [Inr ([[1, 0], [1, 1], [1, 2]], [- 1 / 6, 1 / 3, - 1 / 6]),
        Inr ([[1, 1], [1, 2], [1, 0]], [1 / 3, - 1 / 6, - 1 / 6])]"
  using benchmark_inputs_seeded [OF toy_benchmark_1 [of 0] toy_benchmark_2 [of 5], of 1]
    toy_benchmark_1 [of 0] toy_benchmark_2 [of 5]
  by simp

text \<open>
  Claim C2 does not hold of option 1. \<open>XXe2 = np.zeros((2, 2))\<close> is executed once before
  the replication loop, and option 1 adds into it, so from the second replication on
  \<open>XXe2\<close> holds the sum over all replications so far. In the run below the second
  replication ends with twice the matrix that option 2 computes from the same data, and
  that option 1 itself computes from those data on a fresh accumulator. In general
  (lemmas \<open>middle_step_1_adds\<close> and \<open>middle_step_reassigns\<close>) option 1 returns the
  accumulator it finds plus the weighted sum of the replication, while options 2, 3 and 4
  return the same matrix whatever the accumulator holds.
\<close>

theorem benchmark_option_1_accumulates:
  "benchmark_opt exact_inv toy_seed toy_draw 3 2 1 0 =
     Inr ([(([[1, 0], [1, 1], [1, 2]], [- 1 / 6, 1 / 3, - 1 / 6]),
            [[1 / 6, 1 / 6], [1 / 6, 2 / 9]], [[7 / 216, - 1 / 72], [- 1 / 72, 1 / 72]]),
           (([[1, 1], [1, 2], [1, 0]], [1 / 3, - 1 / 6, - 1 / 6]),
            [[1 / 3, 1 / 3], [1 / 3, 4 / 9]], [[7 / 108, - 1 / 36], [- 1 / 36, 1 / 36]])],
          (7, [[1 / 3, 1 / 3], [1 / 3, 4 / 9]])) \<and>
   benchmark_opt exact_inv toy_seed toy_draw 3 2 2 0 =
     Inr ([(([[1, 0], [1, 1], [1, 2]], [- 1 / 6, 1 / 3, - 1 / 6]),
            [[1 / 6, 1 / 6], [1 / 6, 2 / 9]], [[7 / 216, - 1 / 72], [- 1 / 72, 1 / 72]]),
           (([[1, 1], [1, 2], [1, 0]], [1 / 3, - 1 / 6, - 1 / 6]),
            [[1 / 6, 1 / 6], [1 / 6, 2 / 9]], [[7 / 216, - 1 / 72], [- 1 / 72, 1 / 72]])],
          (7, [[1 / 6, 1 / 6], [1 / 6, 2 / 9]])) \<and>
   computeMiddle 1 [[1, 1], [1, 2], [1, 0]] [1 / 3, - 1 / 6, - 1 / 6]
     = Inr [[1 / 6, 1 / 6], [1 / 6, 2 / 9]]"
proof -
  have "computeMiddle 1 [[1, 1], [1, 2], [1, 0]] [1 / 3, - 1 / 6, - 1 / 6]
          = Inr [[1 / 6, 1 / 6], [1 / 6, 2 / 9]]"
    by code_simp
  then show ?thesis
    using toy_benchmark_1 [of 0] toy_benchmark_2 [of 0] by simp
qed

text \<open>
  Claim C1 does not hold of option 4 of the benchmark cell. There \<open>Xe\<close> is
  \<open>np.matrix(X).T * np.matrix(e_hat)\<close>, and \<open>*\<close> between \<open>np.matrix\<close> operands is the
  matrix product: \<open>Xe\<close> is the column \<open>X' e_hat\<close> and \<open>XXe2\<close> its outer product with itself.
  On the residuals that \<open>lpm\<close> returns, which are orthogonal to the columns of \<open>X\<close>, that
  is the zero matrix, while options 1 to 3 agree on the weighted sum (in general, lemma
  \<open>computeMiddle_123\<close>). Option 4 of the real-data cell, which scales the rows of \<open>X\<close>
  entry by entry, returns the weighted sum on the same input (in general, lemma
  \<open>realdata_middle_sum_outer\<close>). The last two equations are an input with integer
  entries.
\<close>

theorem option_4_disagrees:
  "lpm exact_inv toy_draw 3 (toy_seed 0) = Inr (([[1, 0], [1, 1], [1, 2]], [- 1 / 6, 1 / 3, - 1 / 6]), 6) \<and>
   computeMiddle 1 [[1, 0], [1, 1], [1, 2]] [- 1 / 6, 1 / 3, - 1 / 6] = Inr [[1 / 6, 1 / 6], [1 / 6, 2 / 9]] \<and>
   computeMiddle 2 [[1, 0], [1, 1], [1, 2]] [- 1 / 6, 1 / 3, - 1 / 6] = Inr [[1 / 6, 1 / 6], [1 / 6, 2 / 9]] \<and>
   computeMiddle 3 [[1, 0], [1, 1], [1, 2]] [- 1 / 6, 1 / 3, - 1 / 6] = Inr [[1 / 6, 1 / 6], [1 / 6, 2 / 9]] \<and>
   computeMiddle 4 [[1, 0], [1, 1], [1, 2]] [- 1 / 6, 1 / 3, - 1 / 6] = Inr [[0, 0], [0, 0]] \<and>
   realdata_middle 4 3 2 [[1, 0], [1, 1], [1, 2]] [- 1 / 6, 1 / 3, - 1 / 6]
     = Inr [[1 / 6, 1 / 6], [1 / 6, 2 / 9]] \<and>
   computeMiddle 2 [[1, 0], [1, 1]] [1, 1] = Inr [[2, 1], [1, 1]] \<and>
   computeMiddle 4 [[1, 0], [1, 1]] [1, 1] = Inr [[4, 2], [2, 1]]"
proof -
  have "computeMiddle 1 [[1, 0], [1, 1], [1, 2]] [- 1 / 6, 1 / 3, - 1 / 6] = Inr [[1 / 6, 1 / 6], [1 / 6, 2 / 9]]"
    by code_simp
  moreover have "computeMiddle 2 [[1, 0], [1, 1], [1, 2]] [- 1 / 6, 1 / 3, - 1 / 6] = Inr [[1 / 6, 1 / 6], [1 / 6, 2 / 9]]"
    by code_simp
  moreover have "computeMiddle 3 [[1, 0], [1, 1], [1, 2]] [- 1 / 6, 1 / 3, - 1 / 6] = Inr [[1 / 6, 1 / 6], [1 / 6, 2 / 9]]"
    by code_simp
  moreover have "computeMiddle 4 [[1, 0], [1, 1], [1, 2]] [- 1 / 6, 1 / 3, - 1 / 6] = Inr [[0, 0], [0, 0]]"
    by code_simp
  moreover have "realdata_middle 4 3 2 [[1, 0], [1, 1], [1, 2]] [- 1 / 6, 1 / 3, - 1 / 6]
     = Inr [[1 / 6, 1 / 6], [1 / 6, 2 / 9]]"
    by code_simp
  moreover have "computeMiddle 2 [[1, 0], [1, 1]] [1, 1] = Inr [[2, 1], [1, 1]]"
    by code_simp
  moreover have "computeMiddle 4 [[1, 0], [1, 1]] [1, 1] = Inr [[4, 2], [2, 1]]"
    by code_simp
  ultimately show ?thesis
    using toy_lpm_0 by simp
qed

end
